theory Spec2Isabelle
  imports Main
begin

section \<open>Strings\<close>

text \<open>
  A Python \<open>str\<close> is a sequence of Unicode code points, so a string is a list of
  code points here.  \<open>ustr\<close> turns an ASCII literal into such a list.
\<close>

type_synonym ustring = "nat list"

definition ustr :: "string \<Rightarrow> ustring" where
  "ustr s = map of_char s"

text \<open>The code points \<open>str.strip\<close> and \<open>str.isspace\<close> treat as white space.\<close>

definition py_isspace :: "nat \<Rightarrow> bool" where
  "py_isspace c \<longleftrightarrow>
     (9 \<le> c \<and> c \<le> 13) \<or> (28 \<le> c \<and> c \<le> 32) \<or> c = 133 \<or> c = 160 \<or> c = 5760
     \<or> (8192 \<le> c \<and> c \<le> 8202) \<or> c = 8232 \<or> c = 8233 \<or> c = 8239 \<or> c = 8287
     \<or> c = 12288"

definition rstrip_with :: "(nat \<Rightarrow> bool) \<Rightarrow> ustring \<Rightarrow> ustring" where
  "rstrip_with P s = rev (dropWhile P (rev s))"

definition py_strip :: "ustring \<Rightarrow> ustring" where
  "py_strip s = rstrip_with py_isspace (dropWhile py_isspace s)"

definition is_digit :: "nat \<Rightarrow> bool" where
  "is_digit c \<longleftrightarrow> 48 \<le> c \<and> c \<le> 57"

text \<open>\<open>str(n)\<close> for a natural number and for an integer.\<close>

fun str_nat :: "nat \<Rightarrow> ustring" where
  "str_nat n = (if n < 10 then [48 + n] else str_nat (n div 10) @ [48 + n mod 10])"

declare str_nat.simps [simp del]

definition str_int :: "int \<Rightarrow> ustring" where
  "str_int i = (if i < 0 then 45 # str_nat (nat (- i)) else str_nat (nat i))"

definition digits_val :: "ustring \<Rightarrow> nat" where
  "digits_val ds = foldl (\<lambda>a c. 10 * a + (c - 48)) 0 ds"

definition lower :: "nat \<Rightarrow> nat" where
  "lower c = (if 65 \<le> c \<and> c \<le> 90 then c + 32 else c)"

section \<open>Errors\<close>

text \<open>
  An exception is a value.  A \<open>ValueError\<close> carries what it says: the message of
  \<open>save_table\<close> for a blank id, the refusal of \<open>str\<close> to print an integer longer
  than the interpreter's limit, the refusal of \<open>int\<close> to read a string.  A
  \<open>ReprFailure\<close> is whatever \<open>str\<close> raises while it prints a list or a dictionary;
  a \<open>WriteFailure\<close> is whatever the library raises while a document is written, with
  the step of \<open>_write_json_atomic\<close> it was raised in.
\<close>

datatype value_error = TableIdBlank | IntTooLong | BadIntLiteral

datatype fault = FailBeforeWrite | FailDuringWrite | FailAtReplace

datatype error =
    ValueError value_error | TypeError | OverflowError
  | InvalidOperation | DecimalOverflow
  | FileNotFoundError | JSONDecodeError
  | ReprFailure | WriteFailure fault

definition bindE :: "error + 'a \<Rightarrow> ('a \<Rightarrow> error + 'b) \<Rightarrow> error + 'b" where
  "bindE m f = (case m of Inl e \<Rightarrow> Inl e | Inr a \<Rightarrow> f a)"

section \<open>Values\<close>

text \<open>
  The values of a table or config document: what \<open>json.loads\<close> produces, without
  binary floating-point numbers.  A dictionary keeps its keys in insertion order; a
  lookup finds the first entry of a key.
\<close>

datatype json =
    JNull | JBool bool | JInt int | JStr ustring
  | JList "json list" | JDict "(ustring \<times> json) list"

type_synonym dict = "(ustring \<times> json) list"

text \<open>\<open>d.get(k)\<close>: the value, or \<open>None\<close>.\<close>

definition dget :: "dict \<Rightarrow> ustring \<Rightarrow> json" where
  "dget d k = (case map_of d k of None \<Rightarrow> JNull | Some v \<Rightarrow> v)"

text \<open>\<open>d[k] = v\<close>: an existing key keeps its place, a new key goes last.\<close>

fun dset :: "dict \<Rightarrow> ustring \<Rightarrow> json \<Rightarrow> dict" where
  "dset [] k v = [(k, v)]"
| "dset (p # ps) k v = (if fst p = k then (k, v) # ps else p # dset ps k v)"

definition setdefault :: "dict \<Rightarrow> ustring \<Rightarrow> json \<Rightarrow> dict" where
  "setdefault d k v = (if k \<in> fst ` set d then d else d @ [(k, v)])"

text \<open>Truth value of an object, and \<open>x or y\<close>.\<close>

fun truthy :: "json \<Rightarrow> bool" where
  "truthy JNull = False"
| "truthy (JBool b) = b"
| "truthy (JInt i) = (i \<noteq> 0)"
| "truthy (JStr s) = (s \<noteq> [])"
| "truthy (JList xs) = (xs \<noteq> [])"
| "truthy (JDict d) = (d \<noteq> [])"

definition py_or :: "json \<Rightarrow> json \<Rightarrow> json" where
  "py_or x y = (if truthy x then x else y)"

section \<open>Dates\<close>

text \<open>
  \<open>datetime.date\<close>: year, month and day of the proleptic Gregorian calendar, years
  1 to 9999.  Adding a day beyond 9999-12-31 raises \<open>OverflowError\<close>.
\<close>

record date =
  year :: nat
  month :: nat
  day :: nat

definition is_leap :: "nat \<Rightarrow> bool" where
  "is_leap y \<longleftrightarrow> y mod 4 = 0 \<and> (y mod 100 \<noteq> 0 \<or> y mod 400 = 0)"

definition days_in_month :: "nat \<Rightarrow> nat \<Rightarrow> nat" where
  "days_in_month y m =
     (if m = 2 then (if is_leap y then 29 else 28)
      else if m = 4 \<or> m = 6 \<or> m = 9 \<or> m = 11 then 30 else 31)"

definition valid_date :: "date \<Rightarrow> bool" where
  "valid_date d \<longleftrightarrow>
     1 \<le> year d \<and> year d \<le> 9999 \<and> 1 \<le> month d \<and> month d \<le> 12
     \<and> 1 \<le> day d \<and> day d \<le> days_in_month (year d) (month d)"

definition next_day :: "date \<Rightarrow> error + date" where
  "next_day d =
     (if day d < days_in_month (year d) (month d) then Inr (d\<lparr>day := day d + 1\<rparr>)
      else if month d < 12 then Inr (d\<lparr>month := month d + 1, day := 1\<rparr>)
      else if year d < 9999 then Inr \<lparr>year = year d + 1, month = 1, day = 1\<rparr>
      else Inl OverflowError)"

text \<open>\<open>d + timedelta(days=n)\<close> for \<open>n \<ge> 0\<close>.\<close>

primrec add_days :: "date \<Rightarrow> nat \<Rightarrow> error + date" where
  "add_days d 0 = Inr d"
| "add_days d (Suc n) = bindE (add_days d n) next_day"

definition pad :: "nat \<Rightarrow> ustring \<Rightarrow> ustring" where
  "pad w s = replicate (w - length s) 48 @ s"

definition isoformat :: "date \<Rightarrow> ustring" where
  "isoformat d =
     pad 4 (str_nat (year d)) @ [45] @ pad 2 (str_nat (month d)) @ [45] @ pad 2 (str_nat (day d))"

text \<open>
  \<open>date.fromisoformat\<close> on the form \<open>YYYY-MM-DD\<close> (the only form before Python 3.11;
  later versions read further ISO 8601 forms as well).
\<close>

definition fromisoformat :: "ustring \<Rightarrow> date option" where
  "fromisoformat s =
     (if length s = 10 \<and> s ! 4 = 45 \<and> s ! 7 = 45
         \<and> list_all is_digit (take 4 s) \<and> list_all is_digit (take 2 (drop 5 s))
         \<and> list_all is_digit (drop 8 s)
      then (let d = \<lparr>year = digits_val (take 4 s), month = digits_val (take 2 (drop 5 s)),
                      day = digits_val (drop 8 s)\<rparr>
            in if valid_date d then Some d else None)
      else None)"

section \<open>The Python library\<close>

text \<open>
  The parts of the Python library the model takes as given, so that what is proved
  holds for every interpreter: the decimal digit value of a code point above 127
  (\<open>Py_UNICODE_TODECIMAL\<close>); which finite numbers the constructor \<open>Decimal(s)\<close>
  can hold (the bounds on exponents are those of the build); the number of digits
  beyond which \<open>str\<close> refuses to print an integer (4300 from Python 3.11 on, none
  before); the text between the brackets of the \<open>repr\<close> of a list and of a
  dictionary, if it can be built; \<open>int(s)\<close> on a string;
  and \<open>date.fromisoformat\<close>, which reads more forms from Python 3.11 on.
\<close>

record pylib =
  unicode_decimal :: "nat \<Rightarrow> nat option"
  dec_accepts :: "nat \<Rightarrow> int \<Rightarrow> bool"
  max_str_digits :: "nat option"
  list_body :: "json list \<Rightarrow> ustring option"
  dict_body :: "dict \<Rightarrow> ustring option"
  int_of_str :: "ustring \<Rightarrow> int option"
  date_parse :: "ustring \<Rightarrow> date option"

text \<open>\<open>str(x)\<close>.  The limit on an integer counts its digits, not its sign.\<close>

definition int_too_long :: "pylib \<Rightarrow> int \<Rightarrow> bool" where
  "int_too_long L i =
     (case max_str_digits L of None \<Rightarrow> False | Some m \<Rightarrow> m < length (str_nat (nat \<bar>i\<bar>)))"

fun py_str :: "pylib \<Rightarrow> json \<Rightarrow> error + ustring" where
  "py_str L JNull = Inr (ustr ''None'')"
| "py_str L (JBool b) = Inr (if b then ustr ''True'' else ustr ''False'')"
| "py_str L (JInt i) = (if int_too_long L i then Inl (ValueError IntTooLong) else Inr (str_int i))"
| "py_str L (JStr s) = Inr s"
| "py_str L (JList xs) =
     (case list_body L xs of None \<Rightarrow> Inl ReprFailure | Some b \<Rightarrow> Inr (91 # b @ [93]))"
| "py_str L (JDict d) =
     (case dict_body L d of None \<Rightarrow> Inl ReprFailure | Some b \<Rightarrow> Inr (123 # b @ [125]))"

text \<open>\<open>str(x or "")\<close>, which the source strips to test for a blank field.\<close>

definition str_or_empty :: "pylib \<Rightarrow> json \<Rightarrow> error + ustring" where
  "str_or_empty L x = py_str L (py_or x (JStr []))"

definition parse_iso_date :: "pylib \<Rightarrow> json \<Rightarrow> date option" where
  "parse_iso_date L s =
     (case s of
        JStr t \<Rightarrow> (let u = py_strip t in if u = [] then None else date_parse L u)
      | _ \<Rightarrow> None)"

section \<open>Decimal numbers\<close>

text \<open>
  \<open>decimal.Decimal\<close>: a finite number is a sign, a coefficient and an exponent (the
  value is \<open>\<plusminus> coefficient * 10 ^ exponent\<close>); the special values are the
  infinities and the quiet and signalling NaNs with their payload.  Arithmetic runs
  in the default context: 28 significant digits, rounding half to even, exponents
  between -999999 and 999999, and \<open>InvalidOperation\<close> and \<open>Overflow\<close> raised.
\<close>

datatype decimal =
    Finite bool nat int
  | Infinity bool
  | NaN bool nat
  | SNaN bool nat

definition prec :: nat where "prec = 28"
definition Emax :: int where "Emax = 999999"
definition Emin :: int where "Emin = - 999999"
definition Etiny :: int where "Etiny = Emin - int prec + 1"
definition Etop :: int where "Etop = Emax - int prec + 1"

definition ndigits :: "nat \<Rightarrow> nat" where
  "ndigits c = length (str_nat c)"

text \<open>
  The constructor \<open>Decimal(s)\<close>.  White space around the text is dropped and every
  underscore removed; a code point above 127 must be a decimal digit and counts as
  that digit.  The result is exact; a finite number the build cannot hold exactly
  is refused like any malformed text.
\<close>

definition to_ascii :: "pylib \<Rightarrow> nat \<Rightarrow> nat option" where
  "to_ascii L c =
     (if 0 < c \<and> c \<le> 127 then Some c
      else if py_isspace c then Some 32
      else (case unicode_decimal L c of
              Some d \<Rightarrow> if d < 10 then Some (48 + d) else None
            | None \<Rightarrow> None))"

fun ascii_text :: "pylib \<Rightarrow> ustring \<Rightarrow> ustring option" where
  "ascii_text L [] = Some []"
| "ascii_text L (c # cs) =
     (if c = 95 then ascii_text L cs
      else (case to_ascii L c of
              None \<Rightarrow> None
            | Some a \<Rightarrow> (case ascii_text L cs of None \<Rightarrow> None | Some r \<Rightarrow> Some (a # r))))"

definition parse_exp :: "ustring \<Rightarrow> int option" where
  "parse_exp r =
     (let neg = (r \<noteq> [] \<and> hd r = 45);
          ds = (if r \<noteq> [] \<and> (hd r = 43 \<or> hd r = 45) then tl r else r)
      in if ds \<noteq> [] \<and> list_all is_digit ds
         then Some (if neg then - int (digits_val ds) else int (digits_val ds))
         else None)"

definition parse_number :: "ustring \<Rightarrow> (nat \<times> int) option" where
  "parse_number s =
     (let ip = takeWhile is_digit s;
          r1 = dropWhile is_digit s;
          dot = (r1 \<noteq> [] \<and> hd r1 = 46);
          fp = (if dot then takeWhile is_digit (tl r1) else []);
          r2 = (if dot then dropWhile is_digit (tl r1) else r1)
      in if ip = [] \<and> fp = [] then None
         else if r2 = [] then Some (digits_val (ip @ fp), - int (length fp))
         else if hd r2 = 101 \<or> hd r2 = 69
         then (case parse_exp (tl r2) of
                 None \<Rightarrow> None
               | Some e \<Rightarrow> Some (digits_val (ip @ fp), e - int (length fp)))
         else None)"

definition parse_unsigned :: "bool \<Rightarrow> ustring \<Rightarrow> decimal option" where
  "parse_unsigned sg s =
     (let l = map lower s
      in if l = ustr ''inf'' \<or> l = ustr ''infinity'' then Some (Infinity sg)
         else if take 3 l = ustr ''nan''
         then (if list_all is_digit (drop 3 s) then Some (NaN sg (digits_val (drop 3 s))) else None)
         else if take 4 l = ustr ''snan''
         then (if list_all is_digit (drop 4 s) then Some (SNaN sg (digits_val (drop 4 s))) else None)
         else (case parse_number s of
                 None \<Rightarrow> None
               | Some (c, e) \<Rightarrow> Some (Finite sg c e)))"

definition dec_of_ascii :: "ustring \<Rightarrow> decimal option" where
  "dec_of_ascii s =
     (if s \<noteq> [] \<and> hd s = 45 then parse_unsigned True (tl s)
      else if s \<noteq> [] \<and> hd s = 43 then parse_unsigned False (tl s)
      else parse_unsigned False s)"

definition dec_of_string :: "pylib \<Rightarrow> ustring \<Rightarrow> decimal option" where
  "dec_of_string L s =
     (case ascii_text L (py_strip s) of
        None \<Rightarrow> None
      | Some a \<Rightarrow>
         (case dec_of_ascii a of
            Some (Finite sg c e) \<Rightarrow> if dec_accepts L c e then Some (Finite sg c e) else None
          | r \<Rightarrow> r))"

text \<open>
  Rounding a finite result to the context (\<open>Decimal._fix\<close>): at most \<open>prec\<close>
  digits, half to even; \<open>Overflow\<close> is raised above \<open>Emax\<close>, a subnormal result is
  rounded to the exponent \<open>Etiny\<close>.
\<close>

definition round_half_even :: "nat \<Rightarrow> nat \<Rightarrow> nat" where
  "round_half_even c k =
     (let q = c div 10 ^ k; r = c mod 10 ^ k
      in if 2 * r > 10 ^ k \<or> (2 * r = 10 ^ k \<and> odd q) then q + 1 else q)"

definition dec_fix :: "bool \<Rightarrow> nat \<Rightarrow> int \<Rightarrow> error + decimal" where
  "dec_fix sg c e =
     (if c = 0 then Inr (Finite sg 0 (min (max e Etiny) Emax))
      else
        let exp_min0 = int (ndigits c) + e - int prec in
        if exp_min0 > Etop then Inl DecimalOverflow
        else
          let exp_min = (if exp_min0 < Etiny then Etiny else exp_min0) in
          if e < exp_min then
            (let coeff = round_half_even c (nat (exp_min - e));
                 over = (ndigits coeff > prec);
                 coeff' = (if over then coeff div 10 else coeff);
                 exp' = (if over then exp_min + 1 else exp_min)
             in if exp' > Etop then Inl DecimalOverflow else Inr (Finite sg coeff' exp'))
          else Inr (Finite sg c e))"

definition fix_nan :: "bool \<Rightarrow> nat \<Rightarrow> decimal" where
  "fix_nan sg p = NaN sg (p mod 10 ^ prec)"

definition is_snan :: "decimal \<Rightarrow> bool" where
  "is_snan d = (case d of SNaN _ _ \<Rightarrow> True | _ \<Rightarrow> False)"

definition dec_sign :: "decimal \<Rightarrow> bool" where
  "dec_sign d = (case d of Finite s _ _ \<Rightarrow> s | Infinity s \<Rightarrow> s | NaN s _ \<Rightarrow> s | SNaN s _ \<Rightarrow> s)"

definition is_zero :: "decimal \<Rightarrow> bool" where
  "is_zero d = (case d of Finite _ c _ \<Rightarrow> c = 0 | _ \<Rightarrow> False)"

text \<open>\<open>a * b\<close>.\<close>

definition dec_mul :: "decimal \<Rightarrow> decimal \<Rightarrow> error + decimal" where
  "dec_mul a b =
     (if is_snan a \<or> is_snan b then Inl InvalidOperation
      else case a of
        NaN s p \<Rightarrow> Inr (fix_nan s p)
      | _ \<Rightarrow>
       (case b of
          NaN s p \<Rightarrow> Inr (fix_nan s p)
        | _ \<Rightarrow>
         (case a of
            Infinity s \<Rightarrow>
              if is_zero b then Inl InvalidOperation else Inr (Infinity (s \<noteq> dec_sign b))
          | Finite s1 c1 e1 \<Rightarrow>
             (case b of
                Infinity s \<Rightarrow>
                  if c1 = 0 then Inl InvalidOperation else Inr (Infinity (s1 \<noteq> s))
              | Finite s2 c2 e2 \<Rightarrow> dec_fix (s1 \<noteq> s2) (c1 * c2) (e1 + e2)
              | _ \<Rightarrow> Inl InvalidOperation)
          | _ \<Rightarrow> Inl InvalidOperation)))"

text \<open>\<open>a + b\<close>: the exact sum at the smaller exponent, then rounded to the context.\<close>

definition signed :: "bool \<Rightarrow> nat \<Rightarrow> int" where
  "signed sg c = (if sg then - int c else int c)"

definition dec_add :: "decimal \<Rightarrow> decimal \<Rightarrow> error + decimal" where
  "dec_add a b =
     (if is_snan a \<or> is_snan b then Inl InvalidOperation
      else case a of
        NaN s p \<Rightarrow> Inr (fix_nan s p)
      | _ \<Rightarrow>
       (case b of
          NaN s p \<Rightarrow> Inr (fix_nan s p)
        | _ \<Rightarrow>
         (case a of
            Infinity s \<Rightarrow>
              (case b of
                 Infinity s' \<Rightarrow> if s \<noteq> s' then Inl InvalidOperation else Inr (Infinity s)
               | _ \<Rightarrow> Inr (Infinity s))
          | Finite s1 c1 e1 \<Rightarrow>
             (case b of
                Infinity s \<Rightarrow> Inr (Infinity s)
              | Finite s2 c2 e2 \<Rightarrow>
                 (let e = min e1 e2;
                      v = signed s1 c1 * 10 ^ nat (e1 - e) + signed s2 c2 * 10 ^ nat (e2 - e);
                      sg = (if v = 0 then (c1 = 0 \<and> c2 = 0 \<and> s1 \<and> s2) else v < 0)
                  in dec_fix sg (nat \<bar>v\<bar>) e)
              | _ \<Rightarrow> Inl InvalidOperation)
          | _ \<Rightarrow> Inl InvalidOperation)))"

text \<open>\<open>d.normalize()\<close>: rounded to the context, trailing zeros of the coefficient removed.\<close>

function strip_zeros :: "nat \<Rightarrow> int \<Rightarrow> nat \<times> int" where
  "strip_zeros c e =
     (if c \<noteq> 0 \<and> c mod 10 = 0 \<and> e < Emax then strip_zeros (c div 10) (e + 1) else (c, e))"
  by pat_completeness auto
termination
  by (relation "measure (\<lambda>(c, e). c)") auto

declare strip_zeros.simps [simp del]

definition dec_normalize :: "decimal \<Rightarrow> error + decimal" where
  "dec_normalize d =
     (case d of
        SNaN _ _ \<Rightarrow> Inl InvalidOperation
      | NaN s p \<Rightarrow> Inr (fix_nan s p)
      | Infinity s \<Rightarrow> Inr (Infinity s)
      | Finite s c e \<Rightarrow>
          bindE (dec_fix s c e) (\<lambda>dup.
            case dup of
              Finite s' c' e' \<Rightarrow>
                if c' = 0 then Inr (Finite s' 0 0)
                else (case strip_zeros c' e' of (c'', e'') \<Rightarrow> Inr (Finite s' c'' e''))
            | _ \<Rightarrow> Inr dup))"

text \<open>\<open>format(d, "f")\<close>: fixed-point notation, no exponent.\<close>

definition sign_text :: "bool \<Rightarrow> ustring" where
  "sign_text sg = (if sg then [45] else [])"

definition payload_text :: "nat \<Rightarrow> ustring" where
  "payload_text p = (if p = 0 then [] else str_nat p)"

definition format_f :: "decimal \<Rightarrow> ustring" where
  "format_f d =
     (case d of
        Infinity s \<Rightarrow> sign_text s @ ustr ''Infinity''
      | NaN s p \<Rightarrow> sign_text s @ ustr ''NaN'' @ payload_text p
      | SNaN s p \<Rightarrow> sign_text s @ ustr ''sNaN'' @ payload_text p
      | Finite s c e \<Rightarrow>
          (let ds = str_nat c;
               leftdigits = e + int (length ds);
               intpart =
                 (if leftdigits < 0 then [48]
                  else if leftdigits > int (length ds)
                  then ds @ replicate (nat (leftdigits - int (length ds))) 48
                  else if take (nat leftdigits) ds = [] then [48] else take (nat leftdigits) ds);
               fracpart =
                 (if leftdigits < 0 then replicate (nat (- leftdigits)) 48 @ ds
                  else if leftdigits > int (length ds) then []
                  else drop (nat leftdigits) ds)
           in sign_text s @ intpart @ (if fracpart = [] then [] else 46 # fracpart)))"

section \<open>The clock, the identifiers and the file system\<close>

text \<open>
  What a call reads from outside: today's date, the current time as ISO text,
  the identifier drawn for the row at a position and for a new table.
\<close>

record world =
  today :: date
  now_iso :: ustring
  row_id :: "nat \<Rightarrow> ustring"
  tbl_id :: ustring

definition today_iso :: "world \<Rightarrow> ustring" where
  "today_iso W = isoformat (today W)"

text \<open>A world for evaluating the functions on concrete inputs.\<close>

definition world0 :: world where
  "world0 = \<lparr>today = \<lparr>year = 2026, month = 11, day = 3\<rparr>,
             now_iso = ustr ''2026-11-03T10:00:00'',
             row_id = (\<lambda>i. ustr ''row_'' @ str_nat i),
             tbl_id = ustr ''tbl_0''\<rparr>"

text \<open>
  A file holds the JSON text of a value, or something \<open>json.loads\<close> rejects.  A file
  system maps a path to its file; every write succeeds.
\<close>

datatype fcontent = JsonDoc json | Garbage

type_synonym fs = "ustring \<Rightarrow> fcontent option"

definition path_join :: "ustring \<Rightarrow> ustring \<Rightarrow> ustring" where
  "path_join dir name = dir @ [47] @ name"

definition read_text :: "fs \<Rightarrow> ustring \<Rightarrow> error + fcontent" where
  "read_text F p = (case F p of None \<Rightarrow> Inl FileNotFoundError | Some f \<Rightarrow> Inr f)"

definition json_loads :: "fcontent \<Rightarrow> error + json" where
  "json_loads f = (case f of JsonDoc v \<Rightarrow> Inr v | Garbage \<Rightarrow> Inl JSONDecodeError)"

text \<open>
  A write can fail: before anything is written (the directory cannot be made, the
  document cannot be turned into text, the temporary file cannot be opened), while
  the temporary file is written (a string that UTF-8 cannot encode, a full disk),
  or when the temporary file is moved over the destination.  Whether and where the
  write of a document to a path fails is the operating system's to say.
\<close>

record opsys =
  fault_at :: "fs \<Rightarrow> ustring \<Rightarrow> json \<Rightarrow> fault option"

section \<open>storage.py\<close>

definition FIXED_HEADERS :: "(ustring \<times> ustring) list" where
  "FIXED_HEADERS =
     [(ustr ''loadDate'', [35013, 36710, 26085, 26399]),
      (ustr ''loadPlace'', [35013, 36710, 22320]),
      (ustr ''vehicle'', [36710, 36742]),
      (ustr ''model'', [20135, 21697, 22411, 21495]),
      (ustr ''loadNetWeight'', [35013, 36710, 20928, 37325]),
      (ustr ''unloadDate'', [21368, 36710, 26085, 26399]),
      (ustr ''unloadPlace'', [21368, 36135, 22320]),
      (ustr ''unloadTons'', [21368, 36710, 25968, 65288, 21544, 65289]),
      (ustr ''freight'', [36816, 36153]),
      (ustr ''settleTons'', [32467, 31639, 21544, 25968]),
      (ustr ''amount'', [37329, 39069])]"

definition read_json :: "fs \<Rightarrow> ustring \<Rightarrow> json \<Rightarrow> error + json" where
  "read_json F path dflt =
     (case bindE (read_text F path) json_loads of
        Inr v \<Rightarrow> Inr v
      | Inl e \<Rightarrow> (if e = FileNotFoundError then Inr dflt else Inr dflt))"

text \<open>
  \<open>_write_json_atomic\<close> returns the outcome together with the file system it
  leaves.  The destination changes only when every step succeeds; a failure while
  writing leaves an unreadable temporary file, a failure of the move a complete one.
\<close>

definition write_json_atomic ::
  "opsys \<Rightarrow> fs \<Rightarrow> ustring \<Rightarrow> json \<Rightarrow> (error + unit) \<times> fs" where
  "write_json_atomic OS F path data =
     (let tmp = path @ ustr ''.tmp''
      in case fault_at OS F path data of
           Some FailBeforeWrite \<Rightarrow> (Inl (WriteFailure FailBeforeWrite), F)
         | Some FailDuringWrite \<Rightarrow> (Inl (WriteFailure FailDuringWrite), F(tmp \<mapsto> Garbage))
         | Some FailAtReplace \<Rightarrow> (Inl (WriteFailure FailAtReplace), F(tmp \<mapsto> JsonDoc data))
         | None \<Rightarrow>
            (let F1 = F(tmp \<mapsto> JsonDoc data)
             in (Inr (), (F1(path := F1 tmp))(tmp := None))))"

definition default_config :: "world \<Rightarrow> dict" where
  "default_config W =
     [(ustr ''recentTableIds'', JList []),
      (ustr ''recentLimit'', JInt 12),
      (ustr ''autosaveMs'', JInt 600),
      (ustr ''initialRows'', JInt 31),
      (ustr ''defaultVehicle'', JStr [33945, 74, 56, 55, 55, 50, 49]),
      (ustr ''defaultModel'', JStr (ustr ''PAC'')),
      (ustr ''loadPlaces'',
         JList [JStr [35013, 36710, 22320, 65], JStr [35013, 36710, 22320, 66],
                JStr [35013, 36710, 22320, 67]]),
      (ustr ''unloadPlaces'',
         JList [JStr [21368, 36135, 22320, 65], JStr [21368, 36135, 22320, 66],
                JStr [21368, 36135, 22320, 67]]),
      (ustr ''updatedAt'', JStr (now_iso W))]"

definition is_list :: "json \<Rightarrow> bool" where
  "is_list v = (case v of JList _ \<Rightarrow> True | _ \<Rightarrow> False)"

definition is_dict :: "json \<Rightarrow> bool" where
  "is_dict v = (case v of JDict _ \<Rightarrow> True | _ \<Rightarrow> False)"

definition load_config :: "world \<Rightarrow> fs \<Rightarrow> ustring \<Rightarrow> error + dict" where
  "load_config W F base_dir =
     bindE (read_json F (path_join base_dir (ustr ''config.json'')) (JDict (default_config W)))
       (\<lambda>doc.
          let cfg0 = (case doc of JDict d \<Rightarrow> d | _ \<Rightarrow> default_config W);
              base = default_config W;
              cfg1 = foldl (\<lambda>c (k, v). setdefault c k v) cfg0 base;
              cfg2 = (if \<not> is_list (dget cfg1 (ustr ''recentTableIds''))
                      then dset cfg1 (ustr ''recentTableIds'') (JList []) else cfg1);
              cfg3 = (if \<not> is_list (dget cfg2 (ustr ''loadPlaces''))
                      then dset cfg2 (ustr ''loadPlaces'') (dget base (ustr ''loadPlaces''))
                      else cfg2);
              cfg4 = (if \<not> is_list (dget cfg3 (ustr ''unloadPlaces''))
                      then dset cfg3 (ustr ''unloadPlaces'') (dget base (ustr ''unloadPlaces''))
                      else cfg3)
          in Inr cfg4)"

text \<open>Iterating over an object, and \<open>int(x)\<close>.\<close>

definition py_iter :: "json \<Rightarrow> error + json list" where
  "py_iter v =
     (case v of
        JList xs \<Rightarrow> Inr xs
      | JStr s \<Rightarrow> Inr (map (\<lambda>c. JStr [c]) s)
      | JDict d \<Rightarrow> Inr (map (\<lambda>p. JStr (fst p)) d)
      | _ \<Rightarrow> Inl TypeError)"

definition py_int :: "pylib \<Rightarrow> json \<Rightarrow> error + int" where
  "py_int L v =
     (case v of
        JInt i \<Rightarrow> Inr i
      | JBool b \<Rightarrow> Inr (if b then 1 else 0)
      | JStr s \<Rightarrow> (case int_of_str L s of None \<Rightarrow> Inl (ValueError BadIntLiteral) | Some i \<Rightarrow> Inr i)
      | _ \<Rightarrow> Inl TypeError)"

text \<open>
  A library and an operating system for evaluating the functions on concrete inputs:
  the only decimal digits are the ASCII ones, numbers and integers have the bounds
  of a 64-bit CPython 3.11, dates are read in the form \<open>YYYY-MM-DD\<close>, \<open>int\<close> reads
  no string, and a write fails exactly when the path holds a NUL.
\<close>

definition ascii_lib :: pylib where
  "ascii_lib =
     \<lparr>unicode_decimal = (\<lambda>_. None),
      dec_accepts = (\<lambda>c e. - 1999999999999999997 \<le> e \<and>
                       (if c = 0 then e else e + int (ndigits c) - 1) \<le> 999999999999999999),
      max_str_digits = Some 4300,
      list_body = (\<lambda>_. Some []),
      dict_body = (\<lambda>_. Some []),
      int_of_str = (\<lambda>_. None),
      date_parse = fromisoformat\<rparr>"

definition nul_os :: opsys where
  "nul_os = \<lparr>fault_at = (\<lambda>F p d. if 0 \<in> set p then Some FailBeforeWrite else None)\<rparr>"

definition touch_recent :: "pylib \<Rightarrow> dict \<Rightarrow> ustring \<Rightarrow> error + dict" where
  "touch_recent L cfg table_id =
     bindE (py_iter (case map_of cfg (ustr ''recentTableIds'') of
                       None \<Rightarrow> JList [] | Some v \<Rightarrow> v))
       (\<lambda>old.
          let recents = JStr table_id # filter (\<lambda>x. x \<noteq> JStr table_id) old
          in bindE (py_int L (py_or (dget cfg (ustr ''recentLimit'')) (JInt 12)))
               (\<lambda>limit.
                  Inr (dset cfg (ustr ''recentTableIds'')
                         (JList (take (nat (max 1 limit)) recents)))))"

definition load_table_by_id :: "fs \<Rightarrow> ustring \<Rightarrow> ustring \<Rightarrow> error + dict option" where
  "load_table_by_id F tables_dir table_id =
     bindE (read_json F (path_join tables_dir (table_id @ ustr ''.json'')) JNull)
       (\<lambda>data. Inr (case data of JDict d \<Rightarrow> Some d | _ \<Rightarrow> None))"

text \<open>
  \<open>save_table\<close> returns the outcome together with the file system it leaves: an
  exception raised before the write leaves the file system as it was.
\<close>
text \<open>
  \<open>save_table\<close> returns the outcome together with the file system it leaves: an
  exception raised before the write leaves the file system as it was.
\<close>

definition save_table ::
  "pylib \<Rightarrow> opsys \<Rightarrow> world \<Rightarrow> fs \<Rightarrow> ustring \<Rightarrow> dict \<Rightarrow> (error + unit) \<times> fs" where
  "save_table L OS W F tables_dir table =
     (case str_or_empty L (dget table (ustr ''id'')) of
        Inl e \<Rightarrow> (Inl e, F)
      | Inr s \<Rightarrow>
         (let table_id = py_strip s
          in if table_id = [] then (Inl (ValueError TableIdBlank), F)
             else write_json_atomic OS F (path_join tables_dir (table_id @ ustr ''.json''))
                    (JDict (dset table (ustr ''updatedAt'') (JStr (now_iso W))))))"

text \<open>
  A blank id in the words of the specification: missing (\<open>get\<close> gives \<open>None\<close>),
  empty, or a string of white space only; a value that is not a string is blank when
  it is false (\<open>None\<close>, \<open>False\<close>, 0, an empty list or dictionary).
\<close>

definition blank_id :: "json \<Rightarrow> bool" where
  "blank_id v = (case v of JStr s \<Rightarrow> list_all py_isspace s | _ \<Rightarrow> \<not> truthy v)"

text \<open>
  \<open>to_decimal\<close>.  A Boolean is an \<open>int\<close> to \<open>isinstance\<close>; \<open>Decimal(str(v))\<close>
  then fails on \<open>True\<close> and \<open>False\<close>, and on an integer \<open>str\<close> refuses to print,
  and every exception gives \<open>None\<close>.  Binary floating-point values are outside the
  values modelled.
\<close>

definition to_decimal :: "pylib \<Rightarrow> json \<Rightarrow> decimal option" where
  "to_decimal L v =
     (case v of
        JNull \<Rightarrow> None
      | JBool b \<Rightarrow> (case py_str L v of Inl _ \<Rightarrow> None | Inr s \<Rightarrow> dec_of_string L s)
      | JInt i \<Rightarrow> (case py_str L v of Inl _ \<Rightarrow> None | Inr s \<Rightarrow> dec_of_string L s)
      | JStr s \<Rightarrow> (let t = py_strip s in if t = [] then None else dec_of_string L t)
      | _ \<Rightarrow> None)"

definition fmt_decimal :: "decimal \<Rightarrow> error + ustring" where
  "fmt_decimal d =
     bindE (dec_normalize d)
       (\<lambda>n. let s = format_f n
            in Inr (if 46 \<in> set s
                    then rstrip_with (\<lambda>c. c = 46) (rstrip_with (\<lambda>c. c = 48) s)
                    else s))"

definition compute_amount :: "pylib \<Rightarrow> dict \<Rightarrow> error + ustring" where
  "compute_amount L row =
     (case to_decimal L (dget row (ustr ''freight'')) of
        None \<Rightarrow> Inr []
      | Some freight \<Rightarrow>
         (case to_decimal L (dget row (ustr ''settleTons'')) of
            None \<Rightarrow> Inr []
          | Some settle \<Rightarrow> bindE (dec_mul freight settle) fmt_decimal))"
definition default_if_blank ::
  "pylib \<Rightarrow> dict \<Rightarrow> dict \<Rightarrow> ustring \<Rightarrow> ustring \<Rightarrow> error + dict" where
  "default_if_blank L cfg r key default_key =
     bindE (str_or_empty L (dget r key))
       (\<lambda>s. if py_strip s = []
            then bindE (str_or_empty L (dget cfg default_key)) (\<lambda>d. Inr (dset r key (JStr d)))
            else Inr r)"

definition ensure_row_defaults :: "pylib \<Rightarrow> dict \<Rightarrow> dict \<Rightarrow> error + dict" where
  "ensure_row_defaults L cfg row =
     bindE (default_if_blank L cfg row (ustr ''vehicle'') (ustr ''defaultVehicle''))
       (\<lambda>r. default_if_blank L cfg r (ustr ''model'') (ustr ''defaultModel''))"

definition new_row :: "pylib \<Rightarrow> world \<Rightarrow> dict \<Rightarrow> nat \<Rightarrow> date \<Rightarrow> error + dict" where
  "new_row L W cfg i d =
     bindE (str_or_empty L (dget cfg (ustr ''defaultVehicle'')))
       (\<lambda>v. bindE (str_or_empty L (dget cfg (ustr ''defaultModel'')))
          (\<lambda>m. ensure_row_defaults L cfg
                 [(ustr ''id'', JStr (row_id W i)),
                  (ustr ''loadDate'', JStr (isoformat d)),
                  (ustr ''loadPlace'', JStr []),
                  (ustr ''vehicle'', JStr v),
                  (ustr ''model'', JStr m),
                  (ustr ''loadNetWeight'', JStr []),
                  (ustr ''unloadDate'', JStr []),
                  (ustr ''unloadPlace'', JStr []),
                  (ustr ''unloadTons'', JStr []),
                  (ustr ''freight'', JStr []),
                  (ustr ''settleTons'', JStr []),
                  (ustr ''amount'', JStr [])]))"

fun gen_rows :: "pylib \<Rightarrow> world \<Rightarrow> dict \<Rightarrow> date \<Rightarrow> nat list \<Rightarrow> error + json list" where
  "gen_rows L W cfg start_d [] = Inr []"
| "gen_rows L W cfg start_d (i # ks) =
     bindE (add_days start_d i)
       (\<lambda>d. bindE (new_row L W cfg i d)
          (\<lambda>r. bindE (gen_rows L W cfg start_d ks)
             (\<lambda>rows. Inr (JDict r # rows))))"

text \<open>\<open>parse_iso_date(s) or date.today()\<close>.\<close>

definition start_or_today :: "pylib \<Rightarrow> world \<Rightarrow> ustring \<Rightarrow> date" where
  "start_or_today L W s = (case parse_iso_date L (JStr s) of None \<Rightarrow> today W | Some d \<Rightarrow> d)"

definition ensure_rows_from_start_date ::
  "pylib \<Rightarrow> world \<Rightarrow> dict \<Rightarrow> ustring \<Rightarrow> int \<Rightarrow> error + json list" where
  "ensure_rows_from_start_date L W cfg start_date_iso row_count =
     gen_rows L W cfg (start_or_today L W start_date_iso) [0 ..< nat (max 1 row_count)]"

text \<open>
  The loop of \<open>normalize_table\<close> over \<open>enumerate(rows_in)\<close>: \<open>i\<close> is the position in
  the input list, also after an entry that is not a dictionary has been skipped.
\<close>

definition normalize_row :: "pylib \<Rightarrow> world \<Rightarrow> dict \<Rightarrow> date \<Rightarrow> nat \<Rightarrow> dict \<Rightarrow> error + dict" where
  "normalize_row L W cfg start_d i rr =
     (let r1 = setdefault rr (ustr ''id'') (JStr (row_id W i))
      in bindE (ensure_row_defaults L cfg r1)
           (\<lambda>r2. bindE (add_days start_d i)
              (\<lambda>d. let r3 = dset r2 (ustr ''loadDate'') (JStr (isoformat d))
                   in bindE (compute_amount L r3)
                        (\<lambda>a. Inr (dset r3 (ustr ''amount'') (JStr a))))))"

fun normalize_rows ::
  "pylib \<Rightarrow> world \<Rightarrow> dict \<Rightarrow> date \<Rightarrow> nat \<Rightarrow> json list \<Rightarrow> error + json list" where
  "normalize_rows L W cfg start_d i [] = Inr []"
| "normalize_rows L W cfg start_d i (rr # rest) =
     (case rr of
        JDict r \<Rightarrow>
          bindE (normalize_row L W cfg start_d i r)
            (\<lambda>r'. bindE (normalize_rows L W cfg start_d (Suc i) rest)
                     (\<lambda>out. Inr (JDict r' # out)))
      | _ \<Rightarrow> normalize_rows L W cfg start_d (Suc i) rest)"

definition resolve_start :: "pylib \<Rightarrow> world \<Rightarrow> dict \<Rightarrow> dict \<Rightarrow> error + date" where
  "resolve_start L W meta t =
     bindE (str_or_empty L (dget meta (ustr ''startDate'')))
       (\<lambda>a. if py_strip a \<noteq> [] then Inr (start_or_today L W (py_strip a))
            else bindE (str_or_empty L (dget t (ustr ''startDate'')))
                   (\<lambda>b. Inr (start_or_today L W
                                (if py_strip b \<noteq> [] then py_strip b else today_iso W))))"

definition normalize_table :: "pylib \<Rightarrow> world \<Rightarrow> dict \<Rightarrow> dict \<Rightarrow> error + dict" where
  "normalize_table L W cfg table =
     (let meta = (case dget table (ustr ''meta'') of JDict m \<Rightarrow> m | _ \<Rightarrow> [])
      in bindE (resolve_start L W meta table)
           (\<lambda>start_d.
              let rows_in = (case map_of table (ustr ''rows'') of
                               Some (JList xs) \<Rightarrow> xs | _ \<Rightarrow> [])
              in bindE (normalize_rows L W cfg start_d 0 rows_in)
                   (\<lambda>out_rows.
                      let t1 = dset table (ustr ''rows'') (JList out_rows);
                          t2 = dset t1 (ustr ''startDate'') (JStr (isoformat start_d));
                          t3 = dset t2 (ustr ''meta'')
                                 (JDict (dset meta (ustr ''startDate'') (JStr (isoformat start_d))))
                      in Inr t3)))"

definition create_table :: "pylib \<Rightarrow> world \<Rightarrow> dict \<Rightarrow> ustring \<Rightarrow> int \<Rightarrow> error + dict" where
  "create_table L W cfg start_date_iso0 initial_rows =
     (let start_date_iso =
            (if py_strip start_date_iso0 \<noteq> [] then py_strip start_date_iso0 else today_iso W)
      in bindE (ensure_rows_from_start_date L W cfg start_date_iso initial_rows)
           (\<lambda>rows.
              normalize_table L W cfg
                [(ustr ''id'', JStr (tbl_id W)),
                 (ustr ''name'', JStr (start_date_iso @ [45])),
                 (ustr ''startDate'', JStr start_date_iso),
                 (ustr ''columns'',
                    JList (map (\<lambda>(k, h). JDict [(ustr ''key'', JStr k), (ustr ''label'', JStr h)])
                             FIXED_HEADERS)),
                 (ustr ''rows'', JList rows),
                 (ustr ''createdAt'', JStr (now_iso W)),
                 (ustr ''updatedAt'', JStr (now_iso W)),
                 (ustr ''meta'',
                    JDict [(ustr ''startDate'', JStr start_date_iso),
                           (ustr ''initialRows'', JInt initial_rows)])]))"

fun sum_amounts :: "pylib \<Rightarrow> decimal \<Rightarrow> json list \<Rightarrow> error + decimal" where
  "sum_amounts L tot [] = Inr tot"
| "sum_amounts L tot (r # rs) =
     (case r of
        JDict d \<Rightarrow>
          (case to_decimal L (dget d (ustr ''amount'')) of
             None \<Rightarrow> sum_amounts L tot rs
           | Some a \<Rightarrow> bindE (dec_add tot a) (\<lambda>tot'. sum_amounts L tot' rs))
      | _ \<Rightarrow> sum_amounts L tot rs)"

definition summarize_table ::
  "pylib \<Rightarrow> world \<Rightarrow> dict \<Rightarrow> dict \<Rightarrow> error + dict \<times> decimal" where
  "summarize_table L W cfg table =
     bindE (normalize_table L W cfg table)
       (\<lambda>t.
          let rows = (case map_of t (ustr ''rows'') of None \<Rightarrow> JList [] | Some v \<Rightarrow> v)
          in bindE (case rows of JList rs \<Rightarrow> sum_amounts L (Finite False 0 0) rs
                    | _ \<Rightarrow> Inr (Finite False 0 0))
               (\<lambda>tot.
                  bindE (str_or_empty L (dget t (ustr ''startDate'')))
                    (\<lambda>s.
                       let start_iso = (if py_strip s \<noteq> [] then py_strip s else today_iso W)
                       in bindE (case rows of
                                   JList rs \<Rightarrow>
                                     (if rs \<noteq> []
                                      then (case last rs of
                                              JDict l \<Rightarrow>
                                                bindE (str_or_empty L (dget l (ustr ''loadDate'')))
                                                  (\<lambda>e. Inr (py_strip e))
                                            | _ \<Rightarrow> Inr [])
                                      else Inr [])
                                 | _ \<Rightarrow> Inr [])
                            (\<lambda>end_iso.
                               Inr (dset t (ustr ''name'') (JStr (start_iso @ [45] @ end_iso)),
                                    tot)))))"

section \<open>Basic facts\<close>

lemma ustr_eq_iff [simp]: "ustr a = ustr b \<longleftrightarrow> a = b"
  unfolding ustr_def by (simp add: inj_map_eq_map inj_on_def)

lemma bindE_Inr [simp]: "bindE (Inr a) f = f a"
  by (simp add: bindE_def)

lemma bindE_Inl [simp]: "bindE (Inl e) f = Inl e"
  by (simp add: bindE_def)

lemma bindE_eq_Inr: "bindE m f = Inr b \<longleftrightarrow> (\<exists>a. m = Inr a \<and> f a = Inr b)"
  by (cases m) simp_all

lemma map_of_dset: "map_of (dset d k v) k' = (if k' = k then Some v else map_of d k')"
  by (induction d) auto

lemma dget_dset: "dget (dset d k v) k' = (if k' = k then v else dget d k')"
  by (simp add: dget_def map_of_dset)

lemma dset_same: "map_of d k = Some v \<Longrightarrow> dset d k v = d"
  by (induction d) (auto split: if_splits)

lemma keys_dset: "fst ` set (dset d k v) = insert k (fst ` set d)"
  by (induction d) auto

lemma map_of_setdefault:
  "map_of (setdefault d k v) k' =
     (case map_of d k' of Some x \<Rightarrow> Some x | None \<Rightarrow> if k' = k then Some v else None)"
proof (cases "k \<in> fst ` set d")
  case True
  then have "map_of d k \<noteq> None" by (simp add: map_of_eq_None_iff)
  with True show ?thesis by (auto simp: setdefault_def split: option.splits)
next
  case False
  then have "map_of d k = None" by (simp add: map_of_eq_None_iff)
  with False show ?thesis by (auto simp: setdefault_def map_add_def split: option.splits)
qed

lemma read_json_cases:
  "read_json F p d = Inr (case F p of Some (JsonDoc x) \<Rightarrow> x | _ \<Rightarrow> d)"
  by (simp add: read_json_def read_text_def json_loads_def split: option.splits fcontent.splits)

section \<open>Reading a JSON file\<close>

text \<open>
  Claim C8: \<open>_read_json\<close> never raises.  For every file system, path and default it
  returns a value: the parsed document when the file exists and holds JSON, and the
  given default when the file is missing or does not parse.
\<close>

theorem read_json_never_raises:
  "\<exists>v. read_json F p d = Inr v \<and> v = (case F p of Some (JsonDoc x) \<Rightarrow> x | _ \<Rightarrow> d)"
  by (simp add: read_json_cases)

section \<open>The list of recent tables\<close>

lemma touch_recent_eval:
  assumes "(case map_of cfg (ustr ''recentTableIds'') of None \<Rightarrow> JList [] | Some v \<Rightarrow> v) = JList old"
    and "py_int L (py_or (dget cfg (ustr ''recentLimit'')) (JInt 12)) = Inr limit"
  shows "touch_recent L cfg tid =
           Inr (dset cfg (ustr ''recentTableIds'')
                  (JList (take (nat (max 1 limit)) (JStr tid # filter (\<lambda>x. x \<noteq> JStr tid) old))))"
  using assms by (simp add: touch_recent_def py_iter_def)

text \<open>
  Claim C5, as the code has it.  When \<open>recentTableIds\<close> is a list or absent and
  \<open>recentLimit\<close> is an integer, null or absent, \<open>touch_recent\<close> returns a config whose
  \<open>recentTableIds\<close> starts with the touched id, holds it nowhere else, keeps the other
  ids in their order, and is no longer than \<open>max 1 limit\<close>, where \<open>limit\<close> is
  \<open>recentLimit\<close>, or 12 when \<open>recentLimit\<close> is 0, null or absent.
\<close>

theorem touch_recent_front_bounded:
  assumes "(case map_of cfg (ustr ''recentTableIds'') of None \<Rightarrow> JList [] | Some v \<Rightarrow> v) = JList old"
    and "dget cfg (ustr ''recentLimit'') = JInt n \<or> (dget cfg (ustr ''recentLimit'') = JNull \<and> n = 0)"
  shows "\<exists>rs. touch_recent L cfg tid = Inr (dset cfg (ustr ''recentTableIds'') (JList (JStr tid # rs)))
           \<and> rs = take (nat (max 1 (if n = 0 then 12 else n)) - 1) (filter (\<lambda>x. x \<noteq> JStr tid) old)
           \<and> JStr tid \<notin> set rs
           \<and> int (length (JStr tid # rs)) \<le> max 1 (if n = 0 then 12 else n)"
proof -
  let ?lim = "if n = 0 then 12 else n"
  let ?rs = "take (nat (max 1 ?lim) - 1) (filter (\<lambda>x. x \<noteq> JStr tid) old)"
  have lim: "py_int L (py_or (dget cfg (ustr ''recentLimit'')) (JInt 12)) = Inr ?lim"
    using assms(2) by (auto simp: py_int_def py_or_def)
  have "touch_recent L cfg tid =
          Inr (dset cfg (ustr ''recentTableIds'')
                 (JList (take (nat (max 1 ?lim)) (JStr tid # filter (\<lambda>x. x \<noteq> JStr tid) old))))"
    by (rule touch_recent_eval [OF assms(1) lim])
  also have "take (nat (max 1 ?lim)) (JStr tid # filter (\<lambda>x. x \<noteq> JStr tid) old) = JStr tid # ?rs"
    by (simp add: take_Cons')
  finally have eq: "touch_recent L cfg tid = Inr (dset cfg (ustr ''recentTableIds'') (JList (JStr tid # ?rs)))" .
  have notin: "JStr tid \<notin> set ?rs"
    by (auto dest: in_set_takeD)
  have len: "int (length (JStr tid # ?rs)) \<le> max 1 ?lim"
    by simp
  from eq notin len show ?thesis by blast
qed

theorem touch_recent_front_bounded_witness:
  "touch_recent ascii_lib
     [(ustr ''recentTableIds'', JList [JStr (ustr ''a''), JStr (ustr ''b''), JStr (ustr ''c'')]),
      (ustr ''recentLimit'', JInt 2)] (ustr ''b'')
   = Inr [(ustr ''recentTableIds'', JList [JStr (ustr ''b''), JStr (ustr ''a'')]),
          (ustr ''recentLimit'', JInt 2)]"
  using touch_recent_front_bounded [of
      "[(ustr ''recentTableIds'', JList [JStr (ustr ''a''), JStr (ustr ''b''), JStr (ustr ''c'')]),
        (ustr ''recentLimit'', JInt 2)]"
      "[JStr (ustr ''a''), JStr (ustr ''b''), JStr (ustr ''c'')]" 2 ascii_lib "ustr ''b''"]
  by (simp add: dget_def)

text \<open>
  With \<open>recentLimit\<close> 0 the limit is 12, not 1: touching a third id leaves a list of
  three.
\<close>

theorem touch_recent_limit_counterexample:
  "map_sum id (\<lambda>c. dget c (ustr ''recentTableIds''))
     (touch_recent ascii_lib
        [(ustr ''recentTableIds'', JList [JStr (ustr ''a''), JStr (ustr ''b'')]),
         (ustr ''recentLimit'', JInt 0)] (ustr ''c''))
   = Inr (JList [JStr (ustr ''c''), JStr (ustr ''a''), JStr (ustr ''b'')])
   \<and> \<not> int (length [JStr (ustr ''c''), JStr (ustr ''a''), JStr (ustr ''b'')]) \<le> max 1 0"
  by (simp add: touch_recent_def py_iter_def py_int_def py_or_def dget_def)

section \<open>Loading the configuration\<close>

lemma map_of_backfill:
  "map_of (foldl (\<lambda>c (k, v). setdefault c k v) c base) k =
     (case map_of c k of Some x \<Rightarrow> Some x | None \<Rightarrow> map_of base k)"
proof (induction base arbitrary: c)
  case Nil
  then show ?case by (simp split: option.splits)
next
  case (Cons p base)
  obtain k1 v1 where p: "p = (k1, v1)" by (cases p)
  show ?case
    unfolding p by (simp add: Cons.IH map_of_setdefault split: option.splits)
qed

lemma dget_default_lists:
  "is_list (dget (default_config W) (ustr ''recentTableIds''))"
  "is_list (dget (default_config W) (ustr ''loadPlaces''))"
  "is_list (dget (default_config W) (ustr ''unloadPlaces''))"
  "dget (default_config W) (ustr ''recentTableIds'') = JList []"
  by (simp_all add: default_config_def dget_def is_list_def)

lemma load_config_map_of:
  "\<exists>cfg. load_config W F base_dir = Inr cfg \<and>
     (\<forall>k. map_of cfg k =
        (let doc = (case F (path_join base_dir (ustr ''config.json'')) of
                      Some (JsonDoc (JDict d)) \<Rightarrow> d | _ \<Rightarrow> default_config W);
             filled = (case map_of doc k of
                         Some v \<Rightarrow> Some v | None \<Rightarrow> map_of (default_config W) k)
         in if (k = ustr ''recentTableIds'' \<or> k = ustr ''loadPlaces'' \<or> k = ustr ''unloadPlaces'')
               \<and> \<not> is_list (case filled of Some v \<Rightarrow> v | None \<Rightarrow> JNull)
            then map_of (default_config W) k else filled))"
proof -
  define base where "base = default_config W"
  define doc where "doc = (case F (path_join base_dir (ustr ''config.json'')) of
                      Some (JsonDoc (JDict d)) \<Rightarrow> d | _ \<Rightarrow> base)"
  define cfg1 where "cfg1 = foldl (\<lambda>c (k, v). setdefault c k v) doc base"
  define cfg2 where "cfg2 = (if \<not> is_list (dget cfg1 (ustr ''recentTableIds''))
                      then dset cfg1 (ustr ''recentTableIds'') (JList []) else cfg1)"
  define cfg3 where "cfg3 = (if \<not> is_list (dget cfg2 (ustr ''loadPlaces''))
                      then dset cfg2 (ustr ''loadPlaces'') (dget base (ustr ''loadPlaces''))
                      else cfg2)"
  define cfg4 where "cfg4 = (if \<not> is_list (dget cfg3 (ustr ''unloadPlaces''))
                      then dset cfg3 (ustr ''unloadPlaces'') (dget base (ustr ''unloadPlaces''))
                      else cfg3)"
  have doc_eq: "(case (case F (path_join base_dir (ustr ''config.json'')) of
                         Some (JsonDoc x) \<Rightarrow> x | _ \<Rightarrow> JDict (default_config W)) of
                   JDict d \<Rightarrow> d | _ \<Rightarrow> default_config W) = doc"
    unfolding doc_def base_def by (simp split: option.splits fcontent.splits json.splits)
  have run: "load_config W F base_dir = Inr cfg4"
    unfolding load_config_def read_json_cases
    by (simp add: Let_def doc_eq cfg4_def cfg3_def cfg2_def cfg1_def base_def)
  have m1: "map_of cfg1 k = (case map_of doc k of Some v \<Rightarrow> Some v | None \<Rightarrow> map_of base k)" for k
    unfolding cfg1_def by (rule map_of_backfill)
  have base_keys: "map_of base (ustr ''recentTableIds'') = Some (JList [])"
     "map_of base (ustr ''loadPlaces'') = Some (dget base (ustr ''loadPlaces''))"
     "map_of base (ustr ''unloadPlaces'') = Some (dget base (ustr ''unloadPlaces''))"
    unfolding base_def by (simp_all add: default_config_def dget_def)
  have d1: "dget cfg1 k = (case (case map_of doc k of Some v \<Rightarrow> Some v | None \<Rightarrow> map_of base k) of
                              Some v \<Rightarrow> v | None \<Rightarrow> JNull)" for k
    by (simp add: dget_def m1 split: option.splits)
  have m2: "map_of cfg2 k =
      (if k = ustr ''recentTableIds'' \<and> \<not> is_list (dget cfg1 k) then map_of base k else map_of cfg1 k)" for k
    unfolding cfg2_def by (auto simp: map_of_dset base_keys)
  have m3: "map_of cfg3 k =
      (if k = ustr ''loadPlaces'' \<and> \<not> is_list (dget cfg2 k) then map_of base k else map_of cfg2 k)" for k
    unfolding cfg3_def by (auto simp: map_of_dset base_keys)
  have m4: "map_of cfg4 k =
      (if k = ustr ''unloadPlaces'' \<and> \<not> is_list (dget cfg3 k) then map_of base k else map_of cfg3 k)" for k
    unfolding cfg4_def by (auto simp: map_of_dset base_keys)
  have d2: "k \<noteq> ustr ''recentTableIds'' \<Longrightarrow> dget cfg2 k = dget cfg1 k" for k
    by (simp add: dget_def m2)
  have d3: "k \<noteq> ustr ''loadPlaces'' \<Longrightarrow> dget cfg3 k = dget cfg2 k" for k
    by (simp add: dget_def m3)
  have e2: "dget cfg2 (ustr ''loadPlaces'') = dget cfg1 (ustr ''loadPlaces'')"
    by (rule d2) simp
  have e3: "dget cfg3 (ustr ''unloadPlaces'') = dget cfg1 (ustr ''unloadPlaces'')"
    using d3 [of "ustr ''unloadPlaces''"] d2 [of "ustr ''unloadPlaces''"] by simp
  have final: "map_of cfg4 k =
      (if (k = ustr ''recentTableIds'' \<or> k = ustr ''loadPlaces'' \<or> k = ustr ''unloadPlaces'')
            \<and> \<not> is_list (dget cfg1 k)
       then map_of base k else map_of cfg1 k)" for k
  proof -
    consider "k = ustr ''recentTableIds''" | "k = ustr ''loadPlaces''" | "k = ustr ''unloadPlaces''"
      | "k \<noteq> ustr ''recentTableIds''" "k \<noteq> ustr ''loadPlaces''" "k \<noteq> ustr ''unloadPlaces''"
      by blast
    then show ?thesis
    proof cases
      case 1 then show ?thesis by (simp add: m4 m3 m2)
    next
      case 2 then show ?thesis by (simp add: m4 m3 m2 e2)
    next
      case 3 then show ?thesis by (simp add: m4 m3 m2 e3)
    next
      case 4 then show ?thesis by (simp add: m4 m3 m2)
    qed
  qed
  have "\<forall>k. map_of cfg4 k =
      (if (k = ustr ''recentTableIds'' \<or> k = ustr ''loadPlaces'' \<or> k = ustr ''unloadPlaces'')
            \<and> \<not> is_list (case (case map_of doc k of Some v \<Rightarrow> Some v | None \<Rightarrow> map_of base k) of
                              Some v \<Rightarrow> v | None \<Rightarrow> JNull)
       then map_of base k else (case map_of doc k of Some v \<Rightarrow> Some v | None \<Rightarrow> map_of base k))"
    using final d1 m1 by simp
  then show ?thesis
    unfolding Let_def doc_def [symmetric] base_def [symmetric] using run by blast
qed

text \<open>
  Claim C9, as the code has it.  \<open>load_config\<close> always returns a config.  When the
  stored document is a dictionary, every key of it keeps its value whatever the type,
  every default key that is missing gets its default value, and only
  \<open>recentTableIds\<close>, \<open>loadPlaces\<close> and \<open>unloadPlaces\<close> are replaced by their defaults
  when they are not lists; keys that are not defaults are kept.  When there is no
  readable dictionary the defaults are returned.
\<close>

theorem load_config_backfills_keys:
  "\<exists>cfg. load_config W F base_dir = Inr cfg \<and>
     (\<forall>k. map_of cfg k =
        (let doc = (case F (path_join base_dir (ustr ''config.json'')) of
                      Some (JsonDoc (JDict d)) \<Rightarrow> d | _ \<Rightarrow> default_config W);
             filled = (case map_of doc k of
                         Some v \<Rightarrow> Some v | None \<Rightarrow> map_of (default_config W) k)
         in if (k = ustr ''recentTableIds'' \<or> k = ustr ''loadPlaces'' \<or> k = ustr ''unloadPlaces'')
               \<and> \<not> is_list (case filled of Some v \<Rightarrow> v | None \<Rightarrow> JNull)
            then map_of (default_config W) k else filled))"
  by (rule load_config_map_of)

text \<open>
  A stored \<open>recentLimit\<close> of the wrong type, the string \<open>abc\<close>, is kept: it is not
  replaced by the default 12.
\<close>

theorem load_config_wrong_type_counterexample:
  "map_sum id (\<lambda>c. dget c (ustr ''recentLimit''))
     (load_config world0
        (Map.empty(path_join (ustr ''d'') (ustr ''config.json'') \<mapsto>
           JsonDoc (JDict [(ustr ''recentLimit'', JStr (ustr ''abc''))])))
        (ustr ''d''))
   = Inr (JStr (ustr ''abc''))
   \<and> dget (default_config world0) (ustr ''recentLimit'') = JInt 12"
proof -
  let ?F = "Map.empty(path_join (ustr ''d'') (ustr ''config.json'') \<mapsto>
           JsonDoc (JDict [(ustr ''recentLimit'', JStr (ustr ''abc''))]))"
  obtain cfg where run: "load_config world0 ?F (ustr ''d'') = Inr cfg"
    and look: "\<And>k. map_of cfg k =
        (let doc = (case ?F (path_join (ustr ''d'') (ustr ''config.json'')) of
                      Some (JsonDoc (JDict d)) \<Rightarrow> d | _ \<Rightarrow> default_config world0);
             filled = (case map_of doc k of
                         Some v \<Rightarrow> Some v | None \<Rightarrow> map_of (default_config world0) k)
         in if (k = ustr ''recentTableIds'' \<or> k = ustr ''loadPlaces'' \<or> k = ustr ''unloadPlaces'')
               \<and> \<not> is_list (case filled of Some v \<Rightarrow> v | None \<Rightarrow> JNull)
            then map_of (default_config world0) k else filled)"
    using load_config_map_of [of world0 ?F "ustr ''d''"] by blast
  have "map_of cfg (ustr ''recentLimit'') = Some (JStr (ustr ''abc''))"
    by (simp add: look)
  then have "dget cfg (ustr ''recentLimit'') = JStr (ustr ''abc'')"
    by (simp add: dget_def)
  moreover have "dget (default_config world0) (ustr ''recentLimit'') = JInt 12"
    by (simp add: default_config_def dget_def)
  ultimately show ?thesis using run by simp
qed

section \<open>White space and digits\<close>

lemma dropWhile_Nil_list_all: "dropWhile P xs = [] \<longleftrightarrow> list_all P xs"
  by (induction xs) auto

lemma dropWhile_all_tail:
  assumes "list_all P (dropWhile P xs)"
  shows "dropWhile P xs = []"
proof (rule ccontr)
  assume ne: "dropWhile P xs \<noteq> []"
  then have "\<not> P (hd (dropWhile P xs))" by (rule hd_dropWhile)
  moreover from ne assms have "P (hd (dropWhile P xs))"
    by (cases "dropWhile P xs") simp_all
  ultimately show False by simp
qed

lemma py_strip_Nil_iff: "py_strip s = [] \<longleftrightarrow> list_all py_isspace s"
proof
  assume "py_strip s = []"
  then have "dropWhile py_isspace (rev (dropWhile py_isspace s)) = []"
    unfolding py_strip_def rstrip_with_def by simp
  then have "list_all py_isspace (rev (dropWhile py_isspace s))"
    by (simp only: dropWhile_Nil_list_all)
  then have "list_all py_isspace (dropWhile py_isspace s)"
    by (simp add: list_all_iff)
  then have "dropWhile py_isspace s = []"
    by (rule dropWhile_all_tail)
  then show "list_all py_isspace s"
    by (simp only: dropWhile_Nil_list_all)
next
  assume "list_all py_isspace s"
  then have d: "dropWhile py_isspace s = []"
    by (simp only: dropWhile_Nil_list_all)
  show "py_strip s = []"
    unfolding py_strip_def rstrip_with_def d by simp
qed

lemma py_strip_Cons_nonspace: "\<not> py_isspace c \<Longrightarrow> py_strip (c # s) \<noteq> []"
  by (simp add: py_strip_Nil_iff)

lemma py_strip_id:
  assumes "s \<noteq> []" "\<not> py_isspace (hd s)" "\<not> py_isspace (last s)"
  shows "py_strip s = s"
proof -
  from assms have a: "dropWhile py_isspace s = s"
    by (cases s) simp_all
  from assms have "rev s \<noteq> []" "\<not> py_isspace (hd (rev s))"
    by (simp_all add: hd_rev)
  then have "dropWhile py_isspace (rev s) = rev s"
    by (cases "rev s") simp_all
  with a show ?thesis
    by (simp add: py_strip_def rstrip_with_def)
qed

lemma digit_not_space: "is_digit c \<Longrightarrow> \<not> py_isspace c"
  by (auto simp: is_digit_def py_isspace_def)

lemma str_nat_digits: "list_all is_digit (str_nat n)"
proof (induction n rule: str_nat.induct)
  case (1 n)
  show ?case
  proof (cases "n < 10")
    case True
    then show ?thesis by (subst str_nat.simps) (simp add: is_digit_def)
  next
    case False
    have "n mod 10 < 10" by simp
    then have "is_digit (48 + n mod 10)" unfolding is_digit_def by linarith
    with False 1 show ?thesis by (subst str_nat.simps) simp
  qed
qed

lemma str_nat_not_Nil: "str_nat n \<noteq> []"
  by (subst str_nat.simps) simp

lemma hd_str_nat_digit: "is_digit (hd (str_nat n))"
  using str_nat_digits [of n] str_nat_not_Nil [of n] by (cases "str_nat n") simp_all

lemma py_strip_str_int: "py_strip (str_int i) \<noteq> []"
proof (cases "i < 0")
  case True
  then show ?thesis
    by (simp add: str_int_def py_strip_Cons_nonspace py_isspace_def)
next
  case False
  obtain c cs where c: "str_nat (nat i) = c # cs"
    using str_nat_not_Nil [of "nat i"] by (cases "str_nat (nat i)") auto
  with hd_str_nat_digit [of "nat i"] have "is_digit c" by simp
  with False c show ?thesis
    by (simp add: str_int_def py_strip_Cons_nonspace digit_not_space)
qed

lemma blank_iff:
  assumes "str_or_empty L v = Inr s"
  shows "py_strip s = [] \<longleftrightarrow> blank_id v"
proof (cases v)
  case JNull
  with assms show ?thesis by (auto simp: str_or_empty_def py_or_def blank_id_def py_strip_Nil_iff)
next
  case (JBool b)
  with assms show ?thesis
    by (auto simp: str_or_empty_def py_or_def blank_id_def py_strip_Nil_iff ustr_def py_isspace_def
        split: if_splits)
next
  case (JInt i)
  with assms show ?thesis
    using py_strip_str_int [of i]
    by (auto simp: str_or_empty_def py_or_def blank_id_def py_strip_Nil_iff split: if_splits)
next
  case (JStr t)
  with assms show ?thesis
    by (auto simp: str_or_empty_def py_or_def blank_id_def py_strip_Nil_iff split: if_splits)
next
  case (JList xs)
  with assms show ?thesis
    by (auto simp: str_or_empty_def py_or_def blank_id_def py_strip_Nil_iff py_isspace_def
        split: if_splits option.splits)
next
  case (JDict d)
  with assms show ?thesis
    by (auto simp: str_or_empty_def py_or_def blank_id_def py_strip_Nil_iff py_isspace_def
        split: if_splits option.splits)
qed

lemma str_or_empty_Inl:
  assumes "str_or_empty L v = Inl e"
  shows "\<not> blank_id v" and "e \<noteq> ValueError TableIdBlank"
  using assms
  by (cases v; auto simp: str_or_empty_def py_or_def blank_id_def split: if_splits option.splits)+

section \<open>Decimal digits\<close>

lemma digits_val_snoc: "digits_val (ds @ [c]) = 10 * digits_val ds + (c - 48)"
  by (simp add: digits_val_def)

lemma digits_val_Nil [simp]: "digits_val [] = 0"
  by (simp add: digits_val_def)

lemma digits_val_append:
  "digits_val (xs @ ys) = digits_val xs * 10 ^ length ys + digits_val ys"
proof (induction ys rule: rev_induct)
  case Nil
  then show ?case by simp
next
  case (snoc y ys)
  have "digits_val (xs @ ys @ [y]) = 10 * digits_val (xs @ ys) + (y - 48)"
    using digits_val_snoc [of "xs @ ys" y] by simp
  then show ?case
    by (simp add: snoc.IH digits_val_snoc algebra_simps)
qed

lemma digits_val_zeros: "digits_val (replicate k 48) = 0"
  by (induction k) (simp_all add: digits_val_append [of "[48]", simplified] digits_val_def)

lemma digits_val_pad: "digits_val (pad w s) = digits_val s"
  by (simp add: pad_def digits_val_append digits_val_zeros)

lemma digits_val_str_nat: "digits_val (str_nat n) = n"
proof (induction n rule: str_nat.induct)
  case (1 n)
  show ?case
  proof (cases "n < 10")
    case True
    then show ?thesis by (subst str_nat.simps) (simp add: digits_val_def)
  next
    case False
    with 1 show ?thesis
      by (subst str_nat.simps) (simp add: digits_val_snoc)
  qed
qed

lemma length_str_nat_le: "n < 10 ^ k \<Longrightarrow> 0 < k \<Longrightarrow> length (str_nat n) \<le> k"
proof (induction n arbitrary: k rule: str_nat.induct)
  case (1 n)
  show ?case
  proof (cases "n < 10")
    case True
    with 1 show ?thesis by (subst str_nat.simps) simp
  next
    case False
    obtain j where k: "k = Suc j" using 1(3) by (cases k) auto
    from False 1(2) k have "0 < j" by (cases j) auto
    moreover from 1(2) k have "n div 10 < 10 ^ j"
      by (simp add: less_mult_imp_div_less mult.commute)
    ultimately have "length (str_nat (n div 10)) \<le> j"
      using 1(1) [OF False] by blast
    with False k show ?thesis by (subst str_nat.simps) simp
  qed
qed

lemma length_pad: "length s \<le> w \<Longrightarrow> length (pad w s) = w"
  by (simp add: pad_def)

lemma pad_digits: "list_all is_digit s \<Longrightarrow> list_all is_digit (pad w s)"
  by (auto simp: pad_def is_digit_def list_all_iff)

section \<open>Dates as text\<close>

lemma iso_parts:
  assumes "valid_date d"
  shows "length (pad 4 (str_nat (year d))) = 4"
    and "length (pad 2 (str_nat (month d))) = 2"
    and "length (pad 2 (str_nat (day d))) = 2"
proof -
  from assms have y: "year d < 10 ^ 4" and m: "month d < 10 ^ 2"
    by (simp_all add: valid_date_def)
  from assms have "day d \<le> 31"
    by (auto simp: valid_date_def days_in_month_def split: if_splits)
  then have dd: "day d < 10 ^ 2" by simp
  show "length (pad 4 (str_nat (year d))) = 4"
    by (rule length_pad, rule length_str_nat_le [OF y]) simp
  show "length (pad 2 (str_nat (month d))) = 2"
    by (rule length_pad, rule length_str_nat_le [OF m]) simp
  show "length (pad 2 (str_nat (day d))) = 2"
    by (rule length_pad, rule length_str_nat_le [OF dd]) simp
qed

lemma fromisoformat_isoformat:
  assumes "valid_date d"
  shows "fromisoformat (isoformat d) = Some d"
proof -
  define Y where "Y = pad 4 (str_nat (year d))"
  define M where "M = pad 2 (str_nat (month d))"
  define D where "D = pad 2 (str_nat (day d))"
  have len: "length Y = 4" "length M = 2" "length D = 2"
    unfolding Y_def M_def D_def using iso_parts [OF assms] by simp_all
  have dig: "list_all is_digit Y" "list_all is_digit M" "list_all is_digit D"
    unfolding Y_def M_def D_def by (simp_all add: pad_digits str_nat_digits)
  have val: "digits_val Y = year d" "digits_val M = month d" "digits_val D = day d"
    unfolding Y_def M_def D_def by (simp_all add: digits_val_pad digits_val_str_nat)
  have iso: "isoformat d = Y @ [45] @ M @ [45] @ D"
    by (simp add: isoformat_def Y_def M_def D_def)
  have "length (isoformat d) = 10" by (simp add: iso len)
  moreover have "isoformat d ! 4 = 45" by (simp add: iso len nth_append)
  moreover have "isoformat d ! 7 = 45" by (simp add: iso len nth_append)
  moreover have "take 4 (isoformat d) = Y" by (simp add: iso len)
  moreover have "take 2 (drop 5 (isoformat d)) = M" by (simp add: iso len)
  moreover have "drop 8 (isoformat d) = D" by (simp add: iso len)
  ultimately have "fromisoformat (isoformat d) =
      (if valid_date \<lparr>year = year d, month = month d, day = day d\<rparr>
       then Some \<lparr>year = year d, month = month d, day = day d\<rparr> else None)"
    using dig val by (simp add: fromisoformat_def Let_def)
  moreover have rec: "\<lparr>year = year d, month = month d, day = day d\<rparr> = d"
    by (cases d) simp
  ultimately show ?thesis
    unfolding rec using assms by simp
qed

lemma fromisoformat_shape:
  assumes "fromisoformat u = Some d"
  shows "valid_date d" and "py_strip u = u" and "u \<noteq> []"
proof -
  from assms have len: "length u = 10" and d0: "list_all is_digit (take 4 u)"
    and d9: "list_all is_digit (drop 8 u)"
    by (auto simp: fromisoformat_def Let_def split: if_splits)
  from assms show "valid_date d"
    by (auto simp: fromisoformat_def Let_def split: if_splits)
  from len show ne: "u \<noteq> []" by auto
  from len d0 have "is_digit (hd u)"
    by (cases u) simp_all
  moreover have "is_digit (last u)"
  proof -
    from len have "drop 8 u \<noteq> []" by simp
    then have "last (drop 8 u) \<in> set (drop 8 u)" by (rule last_in_set)
    moreover from len have "last (drop 8 u) = last u" by (simp add: last_drop)
    ultimately show ?thesis using d9 by (simp add: list_all_iff)
  qed
  ultimately show "py_strip u = u"
    using ne by (intro py_strip_id digit_not_space)
qed

section \<open>Saving and loading a table\<close>

lemma tmp_neq: "p \<noteq> p @ ustr ''.tmp''"
  by (simp add: ustr_def)

lemma write_json_atomic_ok:
  assumes "fault_at OS F p d = None"
  shows "fst (write_json_atomic OS F p d) = Inr ()"
    and "snd (write_json_atomic OS F p d) p = Some (JsonDoc d)"
  using assms tmp_neq [of p] by (auto simp: write_json_atomic_def Let_def)

lemma write_json_atomic_fail:
  assumes "fault_at OS F p d = Some f"
  shows "fst (write_json_atomic OS F p d) = Inl (WriteFailure f)"
    and "snd (write_json_atomic OS F p d) p = F p"
  using assms tmp_neq [of p] by (cases f; auto simp: write_json_atomic_def Let_def)+

lemma save_table_blank:
  assumes "blank_id (dget t (ustr ''id''))"
  shows "save_table L OS W F dir t = (Inl (ValueError TableIdBlank), F)"
proof (cases "str_or_empty L (dget t (ustr ''id''))")
  case (Inl e)
  with assms str_or_empty_Inl(1) [OF Inl] show ?thesis by simp
next
  case (Inr s)
  with assms blank_iff [OF Inr] show ?thesis by (simp add: save_table_def)
qed

lemma save_table_not_blank:
  assumes "\<not> blank_id (dget t (ustr ''id''))"
  shows "fst (save_table L OS W F dir t) \<noteq> Inl (ValueError TableIdBlank)"
proof (cases "str_or_empty L (dget t (ustr ''id''))")
  case (Inl e)
  with str_or_empty_Inl(2) [OF Inl] show ?thesis by (simp add: save_table_def)
next
  case (Inr s)
  let ?p = "path_join dir (py_strip s @ ustr ''.json'')"
  let ?d = "JDict (dset t (ustr ''updatedAt'') (JStr (now_iso W)))"
  from assms blank_iff [OF Inr] have ne: "py_strip s \<noteq> []" by simp
  have "fst (write_json_atomic OS F ?p ?d) \<noteq> Inl (ValueError TableIdBlank)"
    by (cases "fault_at OS F ?p ?d")
       (simp_all add: write_json_atomic_ok(1) write_json_atomic_fail(1))
  with Inr ne show ?thesis by (simp add: save_table_def Let_def)
qed

lemma save_table_trimmed:
  assumes "str_or_empty L (dget t (ustr ''id'')) = Inr s" and "s \<noteq> []" and "py_strip s = s"
  shows "save_table L OS W F dir t =
           write_json_atomic OS F (path_join dir (s @ ustr ''.json''))
             (JDict (dset t (ustr ''updatedAt'') (JStr (now_iso W))))"
  using assms by (simp add: save_table_def Let_def)

text \<open>
  Claim C7, as the code has it.  \<open>save_table\<close> raises its own \<open>ValueError\<close> exactly
  when the id is blank, and then leaves the file system as it was.  For an id whose
  text is not blank and has no white space at its ends, the table, stamped with
  \<open>updatedAt\<close>, is handed to \<open>_write_json_atomic\<close> under the name of the id
  followed by \<open>.json\<close>: when that write succeeds the file holds the table, and when
  it fails its exception is raised and the file is as before.
\<close>

theorem save_table_blank_id:
  "(blank_id (dget t (ustr ''id'')) \<longrightarrow>
      save_table L OS W F dir t = (Inl (ValueError TableIdBlank), F))
   \<and> (\<not> blank_id (dget t (ustr ''id'')) \<longrightarrow>
      fst (save_table L OS W F dir t) \<noteq> Inl (ValueError TableIdBlank))
   \<and> (\<forall>s. str_or_empty L (dget t (ustr ''id'')) = Inr s \<and> s \<noteq> [] \<and> py_strip s = s \<longrightarrow>
        (case fault_at OS F (path_join dir (s @ ustr ''.json''))
                (JDict (dset t (ustr ''updatedAt'') (JStr (now_iso W)))) of
           None \<Rightarrow>
             fst (save_table L OS W F dir t) = Inr ()
             \<and> snd (save_table L OS W F dir t) (path_join dir (s @ ustr ''.json''))
                 = Some (JsonDoc (JDict (dset t (ustr ''updatedAt'') (JStr (now_iso W)))))
         | Some f \<Rightarrow>
             fst (save_table L OS W F dir t) = Inl (WriteFailure f)
             \<and> snd (save_table L OS W F dir t) (path_join dir (s @ ustr ''.json''))
                 = F (path_join dir (s @ ustr ''.json''))))"
proof (intro conjI impI allI)
  assume "blank_id (dget t (ustr ''id''))"
  then show "save_table L OS W F dir t = (Inl (ValueError TableIdBlank), F)"
    by (rule save_table_blank)
next
  assume "\<not> blank_id (dget t (ustr ''id''))"
  then show "fst (save_table L OS W F dir t) \<noteq> Inl (ValueError TableIdBlank)"
    by (rule save_table_not_blank)
next
  fix s
  assume a: "str_or_empty L (dget t (ustr ''id'')) = Inr s \<and> s \<noteq> [] \<and> py_strip s = s"
  let ?p = "path_join dir (s @ ustr ''.json'')"
  let ?d = "JDict (dset t (ustr ''updatedAt'') (JStr (now_iso W)))"
  from a have eq: "save_table L OS W F dir t = write_json_atomic OS F ?p ?d"
    by (intro save_table_trimmed) simp_all
  show "case fault_at OS F ?p ?d of
           None \<Rightarrow>
             fst (save_table L OS W F dir t) = Inr ()
             \<and> snd (save_table L OS W F dir t) ?p = Some (JsonDoc ?d)
         | Some f \<Rightarrow>
             fst (save_table L OS W F dir t) = Inl (WriteFailure f)
             \<and> snd (save_table L OS W F dir t) ?p = F ?p"
    unfolding eq
    by (cases "fault_at OS F ?p ?d")
       (simp_all add: write_json_atomic_ok write_json_atomic_fail)
qed

lemma tbl_1_text:
  "str_or_empty ascii_lib (dget [(ustr ''id'', JStr (ustr ''tbl_1''))] (ustr ''id'')) = Inr (ustr ''tbl_1'')"
  "py_strip (ustr ''tbl_1'') = ustr ''tbl_1''"
  "ustr ''tbl_1'' \<noteq> []"
  "fault_at nul_os Map.empty (path_join (ustr ''d'') (ustr ''tbl_1'' @ ustr ''.json''))
     (JDict (dset [(ustr ''id'', JStr (ustr ''tbl_1''))] (ustr ''updatedAt'') (JStr (now_iso world0))))
   = None"
  "\<not> blank_id (dget [(ustr ''id'', JStr (ustr ''tbl_1''))] (ustr ''id''))"
  "blank_id (dget [] (ustr ''id''))"
proof -
  show "py_strip (ustr ''tbl_1'') = ustr ''tbl_1''"
    by (rule py_strip_id) (simp_all add: ustr_def py_isspace_def)
qed (simp_all add: str_or_empty_def py_or_def dget_def ustr_def nul_os_def path_join_def
      blank_id_def py_isspace_def)

theorem save_table_blank_id_witness:
  "blank_id (dget [] (ustr ''id''))
   \<and> save_table ascii_lib nul_os world0 Map.empty (ustr ''d'') []
       = (Inl (ValueError TableIdBlank), Map.empty)
   \<and> \<not> blank_id (dget [(ustr ''id'', JStr (ustr ''tbl_1''))] (ustr ''id''))
   \<and> fst (save_table ascii_lib nul_os world0 Map.empty (ustr ''d'')
            [(ustr ''id'', JStr (ustr ''tbl_1''))]) = Inr ()
   \<and> snd (save_table ascii_lib nul_os world0 Map.empty (ustr ''d'')
            [(ustr ''id'', JStr (ustr ''tbl_1''))])
        (path_join (ustr ''d'') (ustr ''tbl_1'' @ ustr ''.json''))
       = Some (JsonDoc (JDict (dset [(ustr ''id'', JStr (ustr ''tbl_1''))] (ustr ''updatedAt'')
                                  (JStr (now_iso world0)))))"
proof -
  have b: "save_table ascii_lib nul_os world0 Map.empty (ustr ''d'') []
             = (Inl (ValueError TableIdBlank), Map.empty)"
    using save_table_blank_id [of "[]" ascii_lib nul_os world0 Map.empty "ustr ''d''"] tbl_1_text(6)
    by blast
  have "case fault_at nul_os Map.empty (path_join (ustr ''d'') (ustr ''tbl_1'' @ ustr ''.json''))
                (JDict (dset [(ustr ''id'', JStr (ustr ''tbl_1''))] (ustr ''updatedAt'')
                          (JStr (now_iso world0)))) of
           None \<Rightarrow>
             fst (save_table ascii_lib nul_os world0 Map.empty (ustr ''d'')
                    [(ustr ''id'', JStr (ustr ''tbl_1''))]) = Inr ()
             \<and> snd (save_table ascii_lib nul_os world0 Map.empty (ustr ''d'')
                    [(ustr ''id'', JStr (ustr ''tbl_1''))])
                  (path_join (ustr ''d'') (ustr ''tbl_1'' @ ustr ''.json''))
                 = Some (JsonDoc (JDict (dset [(ustr ''id'', JStr (ustr ''tbl_1''))]
                                            (ustr ''updatedAt'') (JStr (now_iso world0)))))
         | Some f \<Rightarrow>
             fst (save_table ascii_lib nul_os world0 Map.empty (ustr ''d'')
                    [(ustr ''id'', JStr (ustr ''tbl_1''))]) = Inl (WriteFailure f)
             \<and> snd (save_table ascii_lib nul_os world0 Map.empty (ustr ''d'')
                    [(ustr ''id'', JStr (ustr ''tbl_1''))])
                  (path_join (ustr ''d'') (ustr ''tbl_1'' @ ustr ''.json''))
                 = Map.empty (path_join (ustr ''d'') (ustr ''tbl_1'' @ ustr ''.json''))"
    using save_table_blank_id [of "[(ustr ''id'', JStr (ustr ''tbl_1''))]" ascii_lib nul_os world0
        Map.empty "ustr ''d''"] tbl_1_text(1,2,3)
    by blast
  then show ?thesis
    unfolding tbl_1_text(4) using b tbl_1_text(5,6) by simp
qed

text \<open>
  The id \<open>a\<close>, NUL, \<open>b\<close> is not blank.  The library refuses a path that holds a NUL
  before anything is written (in Python a \<open>ValueError\<close>, "embedded null byte"), so
  the table is not persisted.
\<close>

theorem save_table_not_persisted_counterexample:
  "\<not> blank_id (JStr [97, 0, 98])
   \<and> save_table ascii_lib nul_os world0 Map.empty (ustr ''d'') [(ustr ''id'', JStr [97, 0, 98])]
       = (Inl (WriteFailure FailBeforeWrite), Map.empty)"
proof -
  have s: "py_strip [97, 0, 98] = [97, 0, 98]"
    by (rule py_strip_id) (simp_all add: py_isspace_def)
  show ?thesis
    by (simp add: save_table_def str_or_empty_def py_or_def dget_def s blank_id_def py_isspace_def
        write_json_atomic_def nul_os_def path_join_def Let_def)
qed

text \<open>
  When the write succeeds, a table whose id has no white space at its ends is found
  again under that id, with the same id and rows.
\<close>

lemma save_load_roundtrip_trimmed:
  assumes "str_or_empty L (dget t (ustr ''id'')) = Inr s" and "s \<noteq> []" and "py_strip s = s"
    and "fault_at OS F (path_join dir (s @ ustr ''.json''))
           (JDict (dset t (ustr ''updatedAt'') (JStr (now_iso W)))) = None"
  shows "load_table_by_id (snd (save_table L OS W F dir t)) dir s
           = Inr (Some (dset t (ustr ''updatedAt'') (JStr (now_iso W))))"
    and "dget (dset t (ustr ''updatedAt'') (JStr (now_iso W))) (ustr ''id'') = dget t (ustr ''id'')"
    and "map_of (dset t (ustr ''updatedAt'') (JStr (now_iso W))) (ustr ''rows'') = map_of t (ustr ''rows'')"
proof -
  show "load_table_by_id (snd (save_table L OS W F dir t)) dir s
           = Inr (Some (dset t (ustr ''updatedAt'') (JStr (now_iso W))))"
    by (simp add: save_table_trimmed [OF assms(1,2,3)] write_json_atomic_ok(2) [OF assms(4)]
        load_table_by_id_def read_json_cases)
qed (simp_all add: dget_dset map_of_dset)

text \<open>
  Claim C6 at the id \<open>" a"\<close>, which is not blank.  The table is saved, under the
  name \<open>a.json\<close>; loading it by its id \<open>" a"\<close> finds nothing, loading \<open>a\<close> finds
  the table whose id is \<open>" a"\<close>.
\<close>

theorem save_load_stripped_id:
  "\<not> blank_id (JStr (ustr '' a''))
   \<and> fst (save_table ascii_lib nul_os world0 Map.empty (ustr ''d'') [(ustr ''id'', JStr (ustr '' a''))])
       = Inr ()
   \<and> load_table_by_id
        (snd (save_table ascii_lib nul_os world0 Map.empty (ustr ''d'') [(ustr ''id'', JStr (ustr '' a''))]))
        (ustr ''d'') (ustr '' a'') = Inr None
   \<and> load_table_by_id
        (snd (save_table ascii_lib nul_os world0 Map.empty (ustr ''d'') [(ustr ''id'', JStr (ustr '' a''))]))
        (ustr ''d'') (ustr ''a'')
       = Inr (Some [(ustr ''id'', JStr (ustr '' a'')), (ustr ''updatedAt'', JStr (now_iso world0))])"
  by (simp add: save_table_def str_or_empty_def py_or_def dget_def blank_id_def py_strip_def
      rstrip_with_def py_isspace_def ustr_def path_join_def load_table_by_id_def read_json_cases
      write_json_atomic_def nul_os_def Let_def)

end
